theory Spec2Isabelle
  imports Complex_Main
begin

section \<open>JavaScript numbers\<close>

text \<open>
  A JavaScript \<^verbatim>\<open>number\<close> is modelled as an exact real or one of the three non-finite
  values. Finite results are exact: rounding, overflow to infinity and the sign of zero are
  not modelled (a zero divisor counts as \<^verbatim>\<open>+0\<close>). The non-finite values behave as
  in IEEE 754: \<open>NaN\<close> is absorbing, \<open>\<infinity> - \<infinity>\<close>, \<open>0 \<cdot> \<infinity>\<close>, \<open>\<infinity> / \<infinity>\<close> and \<open>0 / 0\<close> are
  \<open>NaN\<close>, and every comparison with \<open>NaN\<close> is false.
\<close>

datatype num = Fin real | PInf | NInf | NaN

fun isFinite :: "num \<Rightarrow> bool" where
  "isFinite (Fin r) = True"
| "isFinite PInf = False"
| "isFinite NInf = False"
| "isFinite NaN = False"

instantiation num :: "{plus, minus, uminus, times, divide, abs, ord}"
begin

fun uminus_num :: "num \<Rightarrow> num" where
  "- (Fin a) = Fin (- a)"
| "- PInf = NInf"
| "- NInf = PInf"
| "- NaN = NaN"

fun plus_num :: "num \<Rightarrow> num \<Rightarrow> num" where
  "Fin a + Fin b = Fin (a + b)"
| "Fin a + PInf = PInf"
| "Fin a + NInf = NInf"
| "PInf + Fin b = PInf"
| "PInf + PInf = PInf"
| "PInf + NInf = NaN"
| "NInf + Fin b = NInf"
| "NInf + PInf = NaN"
| "NInf + NInf = NInf"
| "NaN + b = NaN"
| "a + NaN = NaN"

definition minus_num :: "num \<Rightarrow> num \<Rightarrow> num" where
  "a - b = a + (- b)" for a b :: num

fun times_num :: "num \<Rightarrow> num \<Rightarrow> num" where
  "Fin a * Fin b = Fin (a * b)"
| "Fin a * PInf = (if a = 0 then NaN else if 0 < a then PInf else NInf)"
| "Fin a * NInf = (if a = 0 then NaN else if 0 < a then NInf else PInf)"
| "PInf * Fin b = (if b = 0 then NaN else if 0 < b then PInf else NInf)"
| "PInf * PInf = PInf"
| "PInf * NInf = NInf"
| "NInf * Fin b = (if b = 0 then NaN else if 0 < b then NInf else PInf)"
| "NInf * PInf = NInf"
| "NInf * NInf = PInf"
| "NaN * b = NaN"
| "a * NaN = NaN"

fun divide_num :: "num \<Rightarrow> num \<Rightarrow> num" where
  "Fin a div Fin b =
     (if b = 0 then (if a = 0 then NaN else if 0 < a then PInf else NInf)
      else Fin (a / b))"
| "Fin a div PInf = Fin 0"
| "Fin a div NInf = Fin 0"
| "PInf div Fin b = (if b < 0 then NInf else PInf)"
| "PInf div PInf = NaN"
| "PInf div NInf = NaN"
| "NInf div Fin b = (if b < 0 then PInf else NInf)"
| "NInf div PInf = NaN"
| "NInf div NInf = NaN"
| "NaN div b = NaN"
| "a div NaN = NaN"

fun abs_num :: "num \<Rightarrow> num" where
  "\<bar>Fin a\<bar> = Fin \<bar>a\<bar>"
| "\<bar>PInf\<bar> = PInf"
| "\<bar>NInf\<bar> = PInf"
| "\<bar>NaN\<bar> = NaN"

fun less_num :: "num \<Rightarrow> num \<Rightarrow> bool" where
  "Fin a < Fin b \<longleftrightarrow> a < b"
| "Fin a < PInf \<longleftrightarrow> True"
| "Fin a < NInf \<longleftrightarrow> False"
| "PInf < b \<longleftrightarrow> False"
| "NInf < Fin b \<longleftrightarrow> True"
| "NInf < PInf \<longleftrightarrow> True"
| "NInf < NInf \<longleftrightarrow> False"
| "NaN < b \<longleftrightarrow> False"
| "a < NaN \<longleftrightarrow> False"

definition less_eq_num :: "num \<Rightarrow> num \<Rightarrow> bool" where
  "a \<le> b \<longleftrightarrow> a < b \<or> (a = b \<and> a \<noteq> NaN)" for a b :: num

instance ..

end

text \<open>\<^verbatim>\<open>Math.sqrt\<close>.\<close>

fun Math_sqrt :: "num \<Rightarrow> num" where
  "Math_sqrt (Fin a) = (if a < 0 then NaN else Fin (sqrt a))"
| "Math_sqrt PInf = PInf"
| "Math_sqrt NInf = NaN"
| "Math_sqrt NaN = NaN"

text \<open>\<^verbatim>\<open>Math.max\<close> and \<^verbatim>\<open>Math.min\<close> of two arguments: \<open>NaN\<close> if either is.\<close>

fun Math_max :: "num \<Rightarrow> num \<Rightarrow> num" where
  "Math_max NaN b = NaN"
| "Math_max a NaN = NaN"
| "Math_max a b = (if a < b then b else a)"

fun Math_min :: "num \<Rightarrow> num \<Rightarrow> num" where
  "Math_min NaN b = NaN"
| "Math_min a NaN = NaN"
| "Math_min a b = (if b < a then b else a)"

text \<open>
  \<^verbatim>\<open>Math.pow\<close> and the operator \<^verbatim>\<open>**\<close>, case by case as ECMAScript's
  \<^verbatim>\<open>Number::exponentiate\<close> lists them.
\<close>

definition is_integral :: "real \<Rightarrow> bool" where
  "is_integral e \<longleftrightarrow> e = of_int \<lfloor>e\<rfloor>"

fun Math_pow :: "num \<Rightarrow> num \<Rightarrow> num" where
  "Math_pow b NaN = NaN"
| "Math_pow b (Fin e) =
     (if e = 0 then Fin 1
      else case b of
        NaN \<Rightarrow> NaN
      | PInf \<Rightarrow> (if 0 < e then PInf else Fin 0)
      | NInf \<Rightarrow> (if 0 < e then (if is_integral e \<and> odd \<lfloor>e\<rfloor> then NInf else PInf) else Fin 0)
      | Fin a \<Rightarrow>
          (if a = 0 then (if 0 < e then Fin 0 else PInf)
           else if is_integral e then Fin (a powi \<lfloor>e\<rfloor>)
           else if a < 0 then NaN
           else Fin (a powr e)))"
| "Math_pow b PInf =
     (case b of
        NaN \<Rightarrow> NaN
      | PInf \<Rightarrow> PInf
      | NInf \<Rightarrow> PInf
      | Fin a \<Rightarrow> (if 1 < \<bar>a\<bar> then PInf else if \<bar>a\<bar> = 1 then NaN else Fin 0))"
| "Math_pow b NInf =
     (case b of
        NaN \<Rightarrow> NaN
      | PInf \<Rightarrow> Fin 0
      | NInf \<Rightarrow> Fin 0
      | Fin a \<Rightarrow> (if 1 < \<bar>a\<bar> then Fin 0 else if \<bar>a\<bar> = 1 then NaN else PInf))"

text \<open>The nullish coalescing operator \<^verbatim>\<open>a ?? d\<close> on an optional field.\<close>

fun nullish :: "'a option \<Rightarrow> 'a \<Rightarrow> 'a" where
  "nullish None d = d"
| "nullish (Some v) d = v"


section \<open>The optimizers (\<^verbatim>\<open>lib/optimizers\<close>)\<close>

record OptimizerStep =
  x :: num
  y :: num
  z :: num
  gradX :: num
  gradY :: num
  gradNorm :: num
  step :: nat

record Gradient =
  gradX :: num
  gradY :: num

record OptimizerParams =
  learningRate :: num
  momentum :: "num option"
  rho :: "num option"
  beta1 :: "num option"
  beta2 :: "num option"
  epsilon :: "num option"

record OptimizerState =
  x :: num
  y :: num
  vx :: "num option"
  vy :: "num option"
  sx :: "num option"
  sy :: "num option"
  t :: "num option"

text \<open>The default step size \<^verbatim>\<open>h = 1e-5\<close> of \<^verbatim>\<open>computeGradient\<close>.\<close>

definition default_h :: num where
  "default_h = Fin (1 / 10 ^ 5)"

definition computeGradient :: "(num \<Rightarrow> num \<Rightarrow> num) \<Rightarrow> num \<Rightarrow> num \<Rightarrow> num \<Rightarrow> Gradient" where
  "computeGradient f x y h =
     \<lparr>Gradient.gradX = (f (x + h) y - f (x - h) y) div (Fin 2 * h),
      gradY = (f x (y + h) - f x (y - h)) div (Fin 2 * h)\<rparr>"
  for x y :: num

definition sgdStep :: "OptimizerState \<Rightarrow> Gradient \<Rightarrow> OptimizerParams \<Rightarrow> OptimizerState" where
  "sgdStep state gradient params =
     \<lparr>OptimizerState.x = OptimizerState.x state - learningRate params * Gradient.gradX gradient,
      y = OptimizerState.y state - learningRate params * Gradient.gradY gradient,
      vx = None, vy = None, sx = None, sy = None, t = None\<rparr>"

definition momentumStep :: "OptimizerState \<Rightarrow> Gradient \<Rightarrow> OptimizerParams \<Rightarrow> OptimizerState" where
  "momentumStep state gradient params =
     (let momentum = nullish (momentum params) (Fin 0.9);
          vx = momentum * nullish (vx state) (Fin 0) + learningRate params * Gradient.gradX gradient;
          vy = momentum * nullish (vy state) (Fin 0) + learningRate params * Gradient.gradY gradient
      in \<lparr>OptimizerState.x = OptimizerState.x state - vx,
          y = OptimizerState.y state - vy,
          vx = Some vx, vy = Some vy, sx = None, sy = None, t = None\<rparr>)"

definition rmspropStep :: "OptimizerState \<Rightarrow> Gradient \<Rightarrow> OptimizerParams \<Rightarrow> OptimizerState" where
  "rmspropStep state gradient params =
     (let rho = nullish (rho params) (Fin 0.9);
          epsilon = nullish (epsilon params) (Fin (1 / 10 ^ 8));
          sx = rho * nullish (sx state) (Fin 0)
                 + (Fin 1 - rho) * Gradient.gradX gradient * Gradient.gradX gradient;
          sy = rho * nullish (sy state) (Fin 0)
                 + (Fin 1 - rho) * Gradient.gradY gradient * Gradient.gradY gradient
      in \<lparr>OptimizerState.x =
             OptimizerState.x state
               - (learningRate params * Gradient.gradX gradient) div (Math_sqrt sx + epsilon),
          y = OptimizerState.y state
               - (learningRate params * Gradient.gradY gradient) div (Math_sqrt sy + epsilon),
          vx = None, vy = None, sx = Some sx, sy = Some sy, t = None\<rparr>)"

definition adamStep :: "OptimizerState \<Rightarrow> Gradient \<Rightarrow> OptimizerParams \<Rightarrow> OptimizerState" where
  "adamStep state gradient params =
     (let beta1 = nullish (beta1 params) (Fin 0.9);
          beta2 = nullish (beta2 params) (Fin 0.999);
          epsilon = nullish (epsilon params) (Fin (1 / 10 ^ 8));
          t = nullish (t state) (Fin 0) + Fin 1;
          vx = beta1 * nullish (vx state) (Fin 0) + (Fin 1 - beta1) * Gradient.gradX gradient;
          vy = beta1 * nullish (vy state) (Fin 0) + (Fin 1 - beta1) * Gradient.gradY gradient;
          sx = beta2 * nullish (sx state) (Fin 0)
                 + (Fin 1 - beta2) * Gradient.gradX gradient * Gradient.gradX gradient;
          sy = beta2 * nullish (sy state) (Fin 0)
                 + (Fin 1 - beta2) * Gradient.gradY gradient * Gradient.gradY gradient;
          vxCorrected = vx div (Fin 1 - Math_pow beta1 t);
          vyCorrected = vy div (Fin 1 - Math_pow beta2 t);
          sxCorrected = sx div (Fin 1 - Math_pow beta2 t);
          syCorrected = sy div (Fin 1 - Math_pow beta2 t)
      in \<lparr>OptimizerState.x =
             OptimizerState.x state
               - (learningRate params * vxCorrected) div (Math_sqrt sxCorrected + epsilon),
          y = OptimizerState.y state
               - (learningRate params * vyCorrected) div (Math_sqrt syCorrected + epsilon),
          vx = Some vx, vy = Some vy, sx = Some sx, sy = Some sy, t = Some t\<rparr>)"

text \<open>
  \<^verbatim>\<open>OptimizerType\<close> is a union of four string literals for the type checker only; at run
  time the tag is a string (a loaded configuration file can supply any).
\<close>

definition optimizerStep ::
  "string \<Rightarrow> OptimizerState \<Rightarrow> Gradient \<Rightarrow> OptimizerParams \<Rightarrow> OptimizerState" where
  "optimizerStep type state gradient params =
     (if type = ''sgd'' then sgdStep state gradient params
      else if type = ''momentum'' then momentumStep state gradient params
      else if type = ''rmsprop'' then rmspropStep state gradient params
      else if type = ''adam'' then adamStep state gradient params
      else sgdStep state gradient params)"

text \<open>The table \<^verbatim>\<open>defaultParams\<close>; a key outside the table reads as \<^verbatim>\<open>undefined\<close>.\<close>

definition defaultParams :: "string \<Rightarrow> OptimizerParams option" where
  "defaultParams type =
     (if type = ''sgd'' then
        Some \<lparr>learningRate = Fin 0.1, momentum = None, rho = None,
              beta1 = None, beta2 = None, epsilon = None\<rparr>
      else if type = ''momentum'' then
        Some \<lparr>learningRate = Fin 0.1, momentum = Some (Fin 0.9), rho = None,
              beta1 = None, beta2 = None, epsilon = None\<rparr>
      else if type = ''rmsprop'' then
        Some \<lparr>learningRate = Fin 0.01, momentum = None, rho = Some (Fin 0.9),
              beta1 = None, beta2 = None, epsilon = Some (Fin (1 / 10 ^ 8))\<rparr>
      else if type = ''adam'' then
        Some \<lparr>learningRate = Fin 0.1, momentum = None, rho = None,
              beta1 = Some (Fin 0.9), beta2 = Some (Fin 0.999), epsilon = Some (Fin (1 / 10 ^ 8))\<rparr>
      else None)"


section \<open>Preset loss functions (\<^verbatim>\<open>lib/loss-functions\<close>)\<close>

definition quadraticBowl :: "num \<Rightarrow> num \<Rightarrow> num" where
  "quadraticBowl x y = x * x + y * y"
  for x y :: num

definition himmelblau :: "num \<Rightarrow> num \<Rightarrow> num" where
  "himmelblau x y =
     Math_pow (x * x + y - Fin 11) (Fin 2) + Math_pow (x + y * y - Fin 7) (Fin 2)"
  for x y :: num

section \<open>The trajectory driver (component \<^verbatim>\<open>OptimizerVisualization\<close>)\<close>

text \<open>
  The component's state: the \<^verbatim>\<open>useState\<close> cells the driver reads and writes, and the
  ref \<^verbatim>\<open>optimizerStateRef\<close> (\<open>None\<close> is \<^verbatim>\<open>null\<close>). \<open>currentFunction\<close> stands for
  \<^verbatim>\<open>currentFunction.fn\<close>.

  A handler made by \<^verbatim>\<open>useCallback\<close> is a closure of the render that created it. It takes
  two states: \<open>r\<close>, the state as of that render, from which it reads the cells it names
  (\<^verbatim>\<open>currentFunction\<close>, \<^verbatim>\<open>optimizerType\<close>, \<^verbatim>\<open>optimizerParams\<close>, \<^verbatim>\<open>startX\<close>,
  \<^verbatim>\<open>startY\<close>, \<^verbatim>\<open>path.length\<close>), and \<open>c\<close>, the live state, which holds the ref and on which
  the setters act; \<^verbatim>\<open>setPath((prev) => ...)\<close> and \<^verbatim>\<open>setCurrentStepIndex((prev) => ...)\<close>
  read the live value. A handler run from the latest render has \<open>r = c\<close>; one run again
  before the component has rendered anew has an older \<open>r\<close>.
\<close>

record OptimizerVisualization =
  currentFunction :: "num \<Rightarrow> num \<Rightarrow> num"
  optimizerType :: string
  optimizerParams :: OptimizerParams
  startX :: num
  startY :: num
  isRunning :: bool
  path :: "OptimizerStep list"
  currentStepIndex :: int
  optimizerStateRef :: "OptimizerState option"

definition initializePath ::
  "OptimizerVisualization \<Rightarrow> OptimizerVisualization \<Rightarrow> OptimizerVisualization" where
  "initializePath r c =
     (let z = currentFunction r (startX r) (startY r);
          g = computeGradient (currentFunction r) (startX r) (startY r) default_h;
          gradNorm = Math_sqrt (Gradient.gradX g * Gradient.gradX g
                                  + Gradient.gradY g * Gradient.gradY g);
          initialStep =
            \<lparr>OptimizerStep.x = startX r, y = startY r,
             z = (if isFinite z then z else Fin 0),
             gradX = Gradient.gradX g, gradY = Gradient.gradY g,
             gradNorm = gradNorm, step = 0\<rparr>
      in c\<lparr>path := [initialStep],
           currentStepIndex := 0,
           optimizerStateRef :=
             Some \<lparr>OptimizerState.x = startX r, y = startY r,
                   vx = None, vy = None, sx = None, sy = None, t = None\<rparr>\<rparr>)"

definition performStep ::
  "OptimizerVisualization \<Rightarrow> OptimizerVisualization \<Rightarrow> OptimizerVisualization" where
  "performStep r c =
     (case optimizerStateRef c of
        None \<Rightarrow> initializePath r c
      | Some state \<Rightarrow>
          (let g = computeGradient (currentFunction r)
                     (OptimizerState.x state) (OptimizerState.y state) default_h;
               gradNorm = Math_sqrt (Gradient.gradX g * Gradient.gradX g
                                       + Gradient.gradY g * Gradient.gradY g)
           in if gradNorm < Fin (1 / 10 ^ 6) \<or> \<not> isFinite gradNorm
              then c\<lparr>isRunning := False\<rparr>
              else
                (let newState = optimizerStep (optimizerType r) state g (optimizerParams r)
                 in if \<bar>OptimizerState.x newState\<bar> > Fin 100
                       \<or> \<bar>OptimizerState.y newState\<bar> > Fin 100
                       \<or> \<not> isFinite (OptimizerState.x newState)
                       \<or> \<not> isFinite (OptimizerState.y newState)
                    then c\<lparr>isRunning := False\<rparr>
                    else
                      (let z = currentFunction r
                                 (OptimizerState.x newState) (OptimizerState.y newState);
                           newGrad = computeGradient (currentFunction r)
                                 (OptimizerState.x newState) (OptimizerState.y newState)
                                 default_h;
                           newStep =
                             \<lparr>OptimizerStep.x = OptimizerState.x newState,
                              y = OptimizerState.y newState,
                              z = (if isFinite z
                                   then Math_min (Math_max z (Fin (- 50))) (Fin 50)
                                   else Fin 0),
                              gradX = Gradient.gradX newGrad,
                              gradY = Gradient.gradY newGrad,
                              gradNorm =
                                Math_sqrt (Math_pow (Gradient.gradX newGrad) (Fin 2)
                                             + Math_pow (Gradient.gradY newGrad) (Fin 2)),
                              step = length (path r)\<rparr>
                       in c\<lparr>optimizerStateRef := Some newState,
                            path := path c @ [newStep],
                            currentStepIndex := currentStepIndex c + 1\<rparr>))))"

definition handleStep ::
  "OptimizerVisualization \<Rightarrow> OptimizerVisualization \<Rightarrow> OptimizerVisualization" where
  "handleStep r c = (if length (path r) = 0 then initializePath r c else performStep r c)"

definition handleReset :: "OptimizerVisualization \<Rightarrow> OptimizerVisualization" where
  "handleReset c =
     c\<lparr>isRunning := False, path := [], currentStepIndex := - 1, optimizerStateRef := None\<rparr>"

definition setOptimizerType :: "string \<Rightarrow> OptimizerVisualization \<Rightarrow> OptimizerVisualization" where
  "setOptimizerType v c = c\<lparr>optimizerType := v\<rparr>"

definition setOptimizerParams ::
  "OptimizerParams \<Rightarrow> OptimizerVisualization \<Rightarrow> OptimizerVisualization" where
  "setOptimizerParams p c = c\<lparr>optimizerParams := p\<rparr>"

text \<open>
  The algorithm selector's \<^verbatim>\<open>onValueChange\<close> (control panel), wired to the two setters:
  \<^verbatim>\<open>onOptimizerTypeChange(v); onOptimizerParamsChange(defaultParams[v])\<close>. \<open>None\<close> is
  the component left with \<^verbatim>\<open>undefined\<close> parameters, for a value outside the table.
\<close>

definition onValueChange :: "string \<Rightarrow> OptimizerVisualization \<Rightarrow> OptimizerVisualization option" where
  "onValueChange v c =
     (case defaultParams v of
        None \<Rightarrow> None
      | Some p \<Rightarrow> Some (setOptimizerParams p (setOptimizerType v c)))"

text \<open>
  A run of \<^verbatim>\<open>performStep\<close>s on the live state \<open>c\<close>, one for each element of the list: the
  render whose closure that step runs from.
\<close>

fun steps :: "OptimizerVisualization list \<Rightarrow> OptimizerVisualization \<Rightarrow> OptimizerVisualization" where
  "steps [] c = c"
| "steps (r # rs) c = steps rs (performStep r c)"


section \<open>Example runs\<close>

text \<open>The component as first rendered: the initial values of its \<^verbatim>\<open>useState\<close> cells.\<close>

definition initialComponent :: OptimizerVisualization where
  "initialComponent =
     \<lparr>currentFunction = quadraticBowl,
      optimizerType = ''adam'',
      optimizerParams =
        \<lparr>learningRate = Fin 0.1, momentum = None, rho = None,
         beta1 = Some (Fin 0.9), beta2 = Some (Fin 0.999), epsilon = Some (Fin (1 / 10 ^ 8))\<rparr>,
      startX = Fin 2.5,
      startY = Fin 2.5,
      isRunning = False,
      path = [],
      currentStepIndex = - 1,
      optimizerStateRef = None\<rparr>"

text \<open>The default run initialised, and after one Adam step from the latest render.\<close>

definition initialized :: OptimizerVisualization where
  "initialized = initializePath initialComponent initialComponent"

definition afterFirstStep :: OptimizerVisualization where
  "afterFirstStep = performStep initialized initialized"

text \<open>The default run after its first step, with momentum then chosen in the selector.\<close>

definition switchedToMomentum :: OptimizerVisualization where
  "switchedToMomentum =
     setOptimizerParams
       \<lparr>learningRate = Fin 0.1, momentum = Some (Fin 0.9), rho = None,
        beta1 = None, beta2 = None, epsilon = None\<rparr>
       (setOptimizerType ''momentum'' afterFirstStep)"

text \<open>The first render with plain descent chosen in the selector, and that run initialised.\<close>

definition sgdComponent :: OptimizerVisualization where
  "sgdComponent =
     initialComponent
       \<lparr>optimizerType := ''sgd'',
        optimizerParams :=
          \<lparr>learningRate = Fin 0.1, momentum = None, rho = None,
           beta1 = None, beta2 = None, epsilon = None\<rparr>\<rparr>"

definition sgdInitialized :: OptimizerVisualization where
  "sgdInitialized = initializePath sgdComponent sgdComponent"

text \<open>Plain descent with a start far from the minimum, as typed into the start fields.\<close>

definition farStart :: OptimizerVisualization where
  "farStart = sgdComponent\<lparr>startX := Fin 150, startY := Fin 0\<rparr>"

text \<open>The preset Himmelblau with its suggested start \<open>(-4, 4)\<close>.\<close>

definition himmelblauComponent :: OptimizerVisualization where
  "himmelblauComponent =
     initialComponent\<lparr>currentFunction := himmelblau, startX := Fin (- 4), startY := Fin 4\<rparr>"


section \<open>Invariants of a trajectory\<close>

text \<open>Every record of the trajectory carries its own index.\<close>

definition indexed :: "OptimizerStep list \<Rightarrow> bool" where
  "indexed p \<longleftrightarrow> (\<forall>i < length p. step (p ! i) = i)"

text \<open>Every record but the first has its \<open>z\<close> inside the display range.\<close>

definition clamped :: "OptimizerStep list \<Rightarrow> bool" where
  "clamped p \<longleftrightarrow>
     (\<forall>i. 1 \<le> i \<and> i < length p
        \<longrightarrow> Fin (- 50) \<le> OptimizerStep.z (p ! i) \<and> OptimizerStep.z (p ! i) \<le> Fin 50)"

text \<open>
  Every record but the first has for \<open>z\<close> the value of \<open>f\<close> at the record's own point, clamped
  to the display range, or 0 if that value is not finite.
\<close>

definition displayed :: "(num \<Rightarrow> num \<Rightarrow> num) \<Rightarrow> OptimizerStep list \<Rightarrow> bool" where
  "displayed f p \<longleftrightarrow>
     (\<forall>i. 1 \<le> i \<and> i < length p
        \<longrightarrow> OptimizerStep.z (p ! i)
              = (if isFinite (f (OptimizerStep.x (p ! i)) (OptimizerStep.y (p ! i)))
                 then Math_min (Math_max (f (OptimizerStep.x (p ! i)) (OptimizerStep.y (p ! i)))
                                  (Fin (- 50))) (Fin 50)
                 else Fin 0))"

text \<open>
  What holds of the live state once \<open>initializePath\<close> has stored the record \<open>s0\<close>, however
  many steps followed: the ref is set, and the trajectory starts with \<open>s0\<close>.
\<close>

definition started :: "OptimizerStep \<Rightarrow> OptimizerVisualization \<Rightarrow> bool" where
  "started s0 c \<longleftrightarrow> optimizerStateRef c \<noteq> None \<and> path c \<noteq> [] \<and> path c ! 0 = s0"


section \<open>Arithmetic of the number model\<close>

lemma minus_Fin [simp]: "Fin a - Fin b = Fin (a - b)"
  by (simp add: minus_num_def)

lemma less_eq_Fin [simp]: "Fin a \<le> Fin b \<longleftrightarrow> a \<le> b"
  by (auto simp: less_eq_num_def)

lemma times_assoc_num: "(a * b) * c = a * (b * c)"
  for a b c :: num
  by (cases a; cases b; cases c) (auto simp: zero_less_mult_iff mult_less_0_iff not_less)

lemma minus_not_finite: "\<not> isFinite a \<or> \<not> isFinite b \<Longrightarrow> \<not> isFinite (a - b)"
  for a b :: num
  by (cases a; cases b) (auto simp: minus_num_def)

lemma divide_not_finite: "\<not> isFinite a \<Longrightarrow> \<not> isFinite (a div Fin r)"
  for a :: num
  by (cases a) auto

lemma clamp_range:
  "isFinite v \<Longrightarrow> Fin (- 50) \<le> Math_min (Math_max v (Fin (- 50))) (Fin 50)
     \<and> Math_min (Math_max v (Fin (- 50))) (Fin 50) \<le> Fin 50"
  by (cases v) auto

text \<open>A gradient norm of at least 1 is not below the convergence threshold.\<close>

lemma gradNorm_not_small: "1 \<le> q \<Longrightarrow> \<not> sqrt q * 1000000 < 1"
proof -
  assume "1 \<le> q"
  then have "1 \<le> sqrt q" by simp
  then show ?thesis by linarith
qed

text \<open>On the quadratic bowl the central difference is the exact gradient.\<close>

lemma bowl_gradient:
  "computeGradient quadraticBowl (Fin a) (Fin b) default_h
     = \<lparr>Gradient.gradX = Fin (2 * a), gradY = Fin (2 * b)\<rparr>"
  by (simp add: computeGradient_def quadraticBowl_def default_h_def algebra_simps)


section \<open>The gradient estimator\<close>

text \<open>
  Claim C4. With the default step size \<open>h = 1e-5\<close>, \<open>computeGradient\<close> returns the central
  differences \<open>gradX = (f(x+h, y) - f(x-h, y)) / (2h)\<close> and
  \<open>gradY = (f(x, y+h) - f(x, y-h)) / (2h)\<close> for every \<open>f\<close> and every point, and nothing guards
  the samples: a non-finite value of \<open>f\<close> at a sample point makes that component of the
  gradient non-finite.
\<close>

theorem computeGradient_central_difference:
  "Gradient.gradX (computeGradient f px py default_h)
     = (f (px + Fin (1 / 10 ^ 5)) py - f (px - Fin (1 / 10 ^ 5)) py)
         div (Fin 2 * Fin (1 / 10 ^ 5))
   \<and> Gradient.gradY (computeGradient f px py default_h)
     = (f px (py + Fin (1 / 10 ^ 5)) - f px (py - Fin (1 / 10 ^ 5)))
         div (Fin 2 * Fin (1 / 10 ^ 5))
   \<and> (\<not> isFinite (f (px + Fin (1 / 10 ^ 5)) py) \<or> \<not> isFinite (f (px - Fin (1 / 10 ^ 5)) py)
        \<longrightarrow> \<not> isFinite (Gradient.gradX (computeGradient f px py default_h)))
   \<and> (\<not> isFinite (f px (py + Fin (1 / 10 ^ 5))) \<or> \<not> isFinite (f px (py - Fin (1 / 10 ^ 5)))
        \<longrightarrow> \<not> isFinite (Gradient.gradY (computeGradient f px py default_h)))"
  using minus_not_finite divide_not_finite
  by (simp add: computeGradient_def default_h_def)

text \<open>
  The loss function that \<^verbatim>\<open>createLossFunction\<close> returns for an expression that does not
  compile is constantly \<open>NaN\<close>; its gradient is non-finite on both axes.
\<close>

theorem computeGradient_central_difference_witness:
  "\<not> isFinite ((\<lambda>a b. NaN) (Fin 0 + Fin (1 / 10 ^ 5)) (Fin 0))
   \<and> \<not> isFinite (Gradient.gradX (computeGradient (\<lambda>a b. NaN) (Fin 0) (Fin 0) default_h))
   \<and> \<not> isFinite (Gradient.gradY (computeGradient (\<lambda>a b. NaN) (Fin 0) (Fin 0) default_h))"
  using computeGradient_central_difference [of "\<lambda>a b. NaN" "Fin 0" "Fin 0"]
  by (simp add: minus_num_def)


section \<open>The update rules\<close>

text \<open>
  Claim C7. On the quadratic bowl \<open>f(x, y) = x\<^sup>2 + y\<^sup>2\<close> at \<open>(2.5, 2.5)\<close> the finite-difference
  gradient is exactly \<open>(5, 5)\<close>, and one plain-descent step with learning rate \<open>0.1\<close> yields
  exactly \<open>(2.0, 2.0)\<close>, in exact arithmetic.
\<close>

theorem sgd_quadraticBowl_one_step:
  "computeGradient quadraticBowl (Fin 2.5) (Fin 2.5) default_h
     = \<lparr>Gradient.gradX = Fin 5, gradY = Fin 5\<rparr>
   \<and> sgdStep \<lparr>OptimizerState.x = Fin 2.5, y = Fin 2.5,
               vx = None, vy = None, sx = None, sy = None, t = None\<rparr>
        (computeGradient quadraticBowl (Fin 2.5) (Fin 2.5) default_h)
        \<lparr>learningRate = Fin 0.1, momentum = None, rho = None,
         beta1 = None, beta2 = None, epsilon = None\<rparr>
     = \<lparr>OptimizerState.x = Fin 2, y = Fin 2,
        vx = None, vy = None, sx = None, sy = None, t = None\<rparr>"
  by (simp add: computeGradient_def quadraticBowl_def default_h_def sgdStep_def)

text \<open>
  The number model on finite values is real arithmetic: with finite inputs, a non-negative
  accumulator and a non-zero denominator the RMSProp position is the real formula.
\<close>

lemma rmspropStep_finite:
  assumes "OptimizerState.x state = Fin x0" "Gradient.gradX gradient = Fin gx"
    and "learningRate params = Fin lr"
    and "nullish (rho params) (Fin 0.9) = Fin r"
    and "nullish (epsilon params) (Fin (1 / 10 ^ 8)) = Fin e"
    and "nullish (sx state) (Fin 0) = Fin s0"
    and "0 \<le> r * s0 + (1 - r) * gx\<^sup>2"
    and "sqrt (r * s0 + (1 - r) * gx\<^sup>2) + e \<noteq> 0"
  shows "OptimizerState.x (rmspropStep state gradient params)
           = Fin (x0 - lr * gx / (sqrt (r * s0 + (1 - r) * gx\<^sup>2) + e))"
  using assms by (simp add: rmspropStep_def Let_def power2_eq_square mult.assoc)

text \<open>
  Claim C6. For every state, gradient and parameters, the RMSProp step computes per axis
  the accumulator \<open>s' = rho \<cdot> s + (1 - rho) \<cdot> gradient\<^sup>2\<close>, with \<open>s\<close> read as 0 when absent
  and \<open>rho\<close> defaulting to 0.9, and the position
  \<open>x' = x - lr \<cdot> gradX / (sqrt(sx') + epsilon)\<close>, and \<open>y'\<close> likewise, with \<open>epsilon\<close>
  defaulting to \<open>1e-8\<close>.
\<close>

theorem rmspropStep_formula:
  "(let rho' = nullish (rho params) (Fin 0.9);
        epsilon' = nullish (epsilon params) (Fin (1 / 10 ^ 8));
        sx' = rho' * nullish (sx state) (Fin 0)
                + (Fin 1 - rho') * (Gradient.gradX gradient * Gradient.gradX gradient);
        sy' = rho' * nullish (sy state) (Fin 0)
                + (Fin 1 - rho') * (Gradient.gradY gradient * Gradient.gradY gradient)
    in sx (rmspropStep state gradient params) = Some sx'
     \<and> sy (rmspropStep state gradient params) = Some sy'
     \<and> OptimizerState.x (rmspropStep state gradient params)
         = OptimizerState.x state
             - (learningRate params * Gradient.gradX gradient) div (Math_sqrt sx' + epsilon')
     \<and> OptimizerState.y (rmspropStep state gradient params)
         = OptimizerState.y state
             - (learningRate params * Gradient.gradY gradient) div (Math_sqrt sy' + epsilon'))"
  by (simp add: rmspropStep_def Let_def times_assoc_num)

text \<open>
  What the Adam step computes, for every state, gradient and parameters: one incremented
  timestep \<open>t'\<close> in every correction, \<open>beta2\<close> in both second-moment corrections, \<open>beta1\<close> in
  the first-moment correction of the \<open>x\<close> axis and \<open>beta2\<close> in that of the \<open>y\<close> axis.
\<close>

lemma adamStep_bias_correction:
  "(let b1 = nullish (beta1 params) (Fin 0.9);
        b2 = nullish (beta2 params) (Fin 0.999);
        eps = nullish (epsilon params) (Fin (1 / 10 ^ 8));
        t' = nullish (t state) (Fin 0) + Fin 1;
        vx' = b1 * nullish (vx state) (Fin 0) + (Fin 1 - b1) * Gradient.gradX gradient;
        vy' = b1 * nullish (vy state) (Fin 0) + (Fin 1 - b1) * Gradient.gradY gradient;
        sx' = b2 * nullish (sx state) (Fin 0)
                + (Fin 1 - b2) * (Gradient.gradX gradient * Gradient.gradX gradient);
        sy' = b2 * nullish (sy state) (Fin 0)
                + (Fin 1 - b2) * (Gradient.gradY gradient * Gradient.gradY gradient)
    in t (adamStep state gradient params) = Some t'
     \<and> OptimizerState.x (adamStep state gradient params)
         = OptimizerState.x state
             - (learningRate params * (vx' div (Fin 1 - Math_pow b1 t')))
                 div (Math_sqrt (sx' div (Fin 1 - Math_pow b2 t')) + eps)
     \<and> OptimizerState.y (adamStep state gradient params)
         = OptimizerState.y state
             - (learningRate params * (vy' div (Fin 1 - Math_pow b2 t')))
                 div (Math_sqrt (sy' div (Fin 1 - Math_pow b2 t')) + eps))"
  by (simp add: adamStep_def Let_def times_assoc_num)

text \<open>
  Claim C1 says that the Adam step corrects the first moment by \<open>1 - beta1^t'\<close> on both axes.
  The source divides \<open>vx\<close> by \<open>1 - beta1^t'\<close> but \<open>vy\<close> by \<open>1 - beta2^t'\<close>. On the first step
  of the default run (state \<open>(2.5, 2.5)\<close>, gradient \<open>(5, 5)\<close>, Adam's default parameters) the
  two axes, equal on input, come out different: \<open>x' = 2.5 - 0.5 / (5 + 1e-8)\<close> and
  \<open>y' = 2.5 - 50 / (5 + 1e-8)\<close>. The \<open>y\<close> of the result is the formula with \<open>beta2 = 0.999\<close> in
  the first-moment correction, and is not the formula with \<open>beta1 = 0.9\<close> there.
\<close>

theorem adamStep_default_first_step:
  "(let state = \<lparr>OptimizerState.x = Fin 2.5, y = Fin 2.5,
                  vx = None, vy = None, sx = None, sy = None, t = None\<rparr>;
        gradient = \<lparr>Gradient.gradX = Fin 5, gradY = Fin 5\<rparr>;
        params = \<lparr>learningRate = Fin 0.1, momentum = None, rho = None,
                  beta1 = Some (Fin 0.9), beta2 = Some (Fin 0.999),
                  epsilon = Some (Fin (1 / 10 ^ 8))\<rparr>;
        result = adamStep state gradient params;
        vy' = Fin 0.9 * Fin 0 + (Fin 1 - Fin 0.9) * Fin 5;
        sy' = Fin 0.999 * Fin 0 + (Fin 1 - Fin 0.999) * (Fin 5 * Fin 5);
        t' = Fin 0 + Fin 1
    in OptimizerState.x result = Fin (5 / 2 - (1 / 2) / (5 + 1 / 10 ^ 8))
     \<and> OptimizerState.y result = Fin (5 / 2 - 50 / (5 + 1 / 10 ^ 8))
     \<and> OptimizerState.y result
         = Fin 2.5 - (Fin 0.1 * (vy' div (Fin 1 - Math_pow (Fin 0.999) t')))
                       div (Math_sqrt (sy' div (Fin 1 - Math_pow (Fin 0.999) t'))
                              + Fin (1 / 10 ^ 8))
     \<and> OptimizerState.y result
         \<noteq> Fin 2.5 - (Fin 0.1 * (vy' div (Fin 1 - Math_pow (Fin 0.9) t')))
                       div (Math_sqrt (sy' div (Fin 1 - Math_pow (Fin 0.999) t'))
                              + Fin (1 / 10 ^ 8)))"
  by (simp add: adamStep_def Let_def is_integral_def)

text \<open>
  Claim C8. For every state, gradient and parameters, a type tag that is none of the four
  recognised ones is dispatched to plain descent: \<open>optimizerStep\<close> returns what \<open>sgdStep\<close>
  returns on the same arguments, and no error arises.
\<close>

theorem optimizerStep_fallback:
  "type \<notin> {''sgd'', ''momentum'', ''rmsprop'', ''adam''}
   \<Longrightarrow> optimizerStep type state gradient params = sgdStep state gradient params"
  by (simp add: optimizerStep_def)

theorem optimizerStep_fallback_witness:
  "''nesterov'' \<notin> {''sgd'', ''momentum'', ''rmsprop'', ''adam''}
   \<and> optimizerStep ''nesterov''
         \<lparr>OptimizerState.x = Fin 2.5, y = Fin 2.5,
          vx = Some (Fin 0.5), vy = Some (Fin 0.5), sx = None, sy = None, t = None\<rparr>
         \<lparr>Gradient.gradX = Fin 5, gradY = Fin 5\<rparr>
         \<lparr>learningRate = Fin 0.1, momentum = Some (Fin 0.9), rho = None,
          beta1 = None, beta2 = None, epsilon = None\<rparr>
       = \<lparr>OptimizerState.x = Fin 2, y = Fin 2,
          vx = None, vy = None, sx = None, sy = None, t = None\<rparr>"
  using optimizerStep_fallback [of "''nesterov''"
      "\<lparr>OptimizerState.x = Fin 2.5, y = Fin 2.5,
        vx = Some (Fin 0.5), vy = Some (Fin 0.5), sx = None, sy = None, t = None\<rparr>"
      "\<lparr>Gradient.gradX = Fin 5, gradY = Fin 5\<rparr>"
      "\<lparr>learningRate = Fin 0.1, momentum = Some (Fin 0.9), rho = None,
        beta1 = None, beta2 = None, epsilon = None\<rparr>"]
  by (simp add: sgdStep_def)


section \<open>The trajectory driver: one step\<close>

text \<open>
  With the ref set, \<open>performStep\<close> either only halts the automatic run, or commits a new
  state and appends one record. That record carries as its index the length of the
  trajectory as of the closure's render, and as \<open>z\<close> the clamped value of the closure's loss
  function at the record's own point.
\<close>

lemma performStep_Some_cases:
  "optimizerStateRef c = Some state \<Longrightarrow>
   performStep r c = c\<lparr>isRunning := False\<rparr>
   \<or> (\<exists>s newState.
         performStep r c = c\<lparr>optimizerStateRef := Some newState, path := path c @ [s],
                                currentStepIndex := currentStepIndex c + 1\<rparr>
         \<and> step s = length (path r)
         \<and> OptimizerStep.z s
             = (if isFinite (currentFunction r (OptimizerStep.x s) (OptimizerStep.y s))
                then Math_min (Math_max (currentFunction r (OptimizerStep.x s) (OptimizerStep.y s))
                                 (Fin (- 50))) (Fin 50)
                else Fin 0)
         \<and> Fin (- 50) \<le> OptimizerStep.z s \<and> OptimizerStep.z s \<le> Fin 50)"
  using clamp_range by (auto simp: performStep_def Let_def)

lemma initialized_simps:
  "optimizerStateRef initialized
     = Some \<lparr>OptimizerState.x = Fin 2.5, y = Fin 2.5,
             vx = None, vy = None, sx = None, sy = None, t = None\<rparr>"
  "currentFunction initialized = quadraticBowl"
  "optimizerType initialized = ''adam''"
  "optimizerParams initialized
     = \<lparr>learningRate = Fin 0.1, momentum = None, rho = None,
        beta1 = Some (Fin 0.9), beta2 = Some (Fin 0.999), epsilon = Some (Fin (1 / 10 ^ 8))\<rparr>"
  "length (path initialized) = 1"
  "OptimizerStep.z (path initialized ! 0) = Fin (25 / 2)"
  by (simp_all add: initialized_def initializePath_def initialComponent_def Let_def
        quadraticBowl_def)

lemma afterFirstStep_simps:
  "optimizerStateRef afterFirstStep
     = Some \<lparr>OptimizerState.x = Fin (5 / 2 - (1 / 2) / (5 + 1 / 10 ^ 8)),
             y = Fin (5 / 2 - 50 / (5 + 1 / 10 ^ 8)),
             vx = Some (Fin 0.5), vy = Some (Fin 0.5),
             sx = Some (Fin 0.025), sy = Some (Fin 0.025), t = Some (Fin 1)\<rparr>"
  "length (path afterFirstStep) = 2"
  "OptimizerStep.x (path afterFirstStep ! 1) = Fin (5 / 2 - (1 / 2) / (5 + 1 / 10 ^ 8))"
  "OptimizerStep.y (path afterFirstStep ! 1) = Fin (5 / 2 - 50 / (5 + 1 / 10 ^ 8))"
  "currentFunction afterFirstStep = quadraticBowl"
  "optimizerType afterFirstStep = ''adam''"
  "optimizerParams afterFirstStep
     = \<lparr>learningRate = Fin 0.1, momentum = None, rho = None,
        beta1 = Some (Fin 0.9), beta2 = Some (Fin 0.999), epsilon = Some (Fin (1 / 10 ^ 8))\<rparr>"
  by (simp_all add: afterFirstStep_def performStep_def initialized_simps Let_def bowl_gradient
        optimizerStep_def adamStep_def is_integral_def gradNorm_not_small nth_append)

text \<open>
  Claim C3. From an initialised state (the ref is set): if the gradient norm at the current
  position is below \<open>1e-6\<close> or non-finite, \<open>performStep\<close> appends nothing, keeps the
  trajectory and stops the automatic run; otherwise, if the candidate has \<open>|x'| > 100\<close> or
  \<open>|y'| > 100\<close> or a non-finite coordinate, it appends nothing and stops the automatic run;
  otherwise it appends exactly one record. So the trajectory grows by exactly one element
  if and only if neither halt condition holds. This holds from the closure of any render.
\<close>

theorem performStep_outcome:
  "optimizerStateRef c = Some state \<Longrightarrow>
   (let g = computeGradient (currentFunction r)
              (OptimizerState.x state) (OptimizerState.y state) default_h;
        gradNorm = Math_sqrt (Gradient.gradX g * Gradient.gradX g
                                + Gradient.gradY g * Gradient.gradY g);
        newState = optimizerStep (optimizerType r) state g (optimizerParams r);
        converged = (gradNorm < Fin (1 / 10 ^ 6) \<or> \<not> isFinite gradNorm);
        diverged = (\<bar>OptimizerState.x newState\<bar> > Fin 100
                    \<or> \<bar>OptimizerState.y newState\<bar> > Fin 100
                    \<or> \<not> isFinite (OptimizerState.x newState)
                    \<or> \<not> isFinite (OptimizerState.y newState))
    in (if converged then path (performStep r c) = path c \<and> \<not> isRunning (performStep r c)
        else if diverged then path (performStep r c) = path c \<and> \<not> isRunning (performStep r c)
        else (\<exists>s. path (performStep r c) = path c @ [s])
               \<and> isRunning (performStep r c) = isRunning c)
     \<and> (length (path (performStep r c)) = length (path c) + 1
          \<longleftrightarrow> \<not> converged \<and> \<not> diverged))"
  by (simp add: performStep_def Let_def)

theorem performStep_outcome_witness:
  "optimizerStateRef initialized
     = Some \<lparr>OptimizerState.x = Fin 2.5, y = Fin 2.5,
             vx = None, vy = None, sx = None, sy = None, t = None\<rparr>
   \<and> length (path (performStep initialized initialized)) = length (path initialized) + 1"
  using performStep_outcome [OF initialized_simps(1), of initialized]
  by (simp add: initialized_simps Let_def bowl_gradient optimizerStep_def adamStep_def
        is_integral_def gradNorm_not_small)

text \<open>
  Claim C9. When \<open>performStep\<close> rejects its candidate (\<open>|x'| > 100\<close>, \<open>|y'| > 100\<close> or a
  non-finite coordinate), the live optimizer state is exactly what it was: the candidate is
  not committed, only the automatic run is stopped, and a later step computes from the same
  position and the same accumulator fields, so it has the same outcome.
\<close>

theorem performStep_rejected_keeps_state:
  "optimizerStateRef c = Some state \<Longrightarrow>
   (let g = computeGradient (currentFunction r)
              (OptimizerState.x state) (OptimizerState.y state) default_h;
        gradNorm = Math_sqrt (Gradient.gradX g * Gradient.gradX g
                                + Gradient.gradY g * Gradient.gradY g);
        newState = optimizerStep (optimizerType r) state g (optimizerParams r)
    in \<not> (gradNorm < Fin (1 / 10 ^ 6) \<or> \<not> isFinite gradNorm)
       \<and> (\<bar>OptimizerState.x newState\<bar> > Fin 100
            \<or> \<bar>OptimizerState.y newState\<bar> > Fin 100
            \<or> \<not> isFinite (OptimizerState.x newState)
            \<or> \<not> isFinite (OptimizerState.y newState))) \<Longrightarrow>
   optimizerStateRef (performStep r c) = Some state
   \<and> performStep r c = c\<lparr>isRunning := False\<rparr>
   \<and> performStep r (performStep r c) = performStep r c"
  by (simp add: performStep_def Let_def)

text \<open>
  From \<open>(150, 0)\<close> on the quadratic bowl plain descent proposes \<open>x' = 150 - 0.1 \<cdot> 300 = 120\<close>,
  which is rejected.
\<close>

theorem performStep_rejected_keeps_state_witness:
  "optimizerStateRef (initializePath farStart farStart)
     = Some \<lparr>OptimizerState.x = Fin 150, y = Fin 0,
             vx = None, vy = None, sx = None, sy = None, t = None\<rparr>
   \<and> optimizerStateRef
         (performStep (initializePath farStart farStart) (initializePath farStart farStart))
     = Some \<lparr>OptimizerState.x = Fin 150, y = Fin 0,
             vx = None, vy = None, sx = None, sy = None, t = None\<rparr>
   \<and> path (performStep (initializePath farStart farStart) (initializePath farStart farStart))
     = path (initializePath farStart farStart)"
proof -
  let ?c = "initializePath farStart farStart"
  let ?s = "\<lparr>OptimizerState.x = Fin 150, y = Fin 0,
             vx = None, vy = None, sx = None, sy = None, t = None\<rparr>"
  have st: "optimizerStateRef ?c = Some ?s"
    by (simp add: initializePath_def farStart_def sgdComponent_def initialComponent_def Let_def)
  have f: "currentFunction ?c = quadraticBowl" "optimizerType ?c = ''sgd''"
    "optimizerParams ?c = \<lparr>learningRate = Fin 0.1, momentum = None, rho = None,
                            beta1 = None, beta2 = None, epsilon = None\<rparr>"
    by (simp_all add: initializePath_def farStart_def sgdComponent_def initialComponent_def
          Let_def)
  have rejected:
    "(let g = computeGradient (currentFunction ?c)
                (OptimizerState.x ?s) (OptimizerState.y ?s) default_h;
          gradNorm = Math_sqrt (Gradient.gradX g * Gradient.gradX g
                                  + Gradient.gradY g * Gradient.gradY g);
          newState = optimizerStep (optimizerType ?c) ?s g (optimizerParams ?c)
      in \<not> (gradNorm < Fin (1 / 10 ^ 6) \<or> \<not> isFinite gradNorm)
         \<and> (\<bar>OptimizerState.x newState\<bar> > Fin 100
              \<or> \<bar>OptimizerState.y newState\<bar> > Fin 100
              \<or> \<not> isFinite (OptimizerState.x newState)
              \<or> \<not> isFinite (OptimizerState.y newState)))"
    by (simp add: f Let_def bowl_gradient optimizerStep_def sgdStep_def gradNorm_not_small)
  note kept = performStep_rejected_keeps_state [OF st rejected]
  from kept have ref: "optimizerStateRef (performStep ?c ?c) = Some ?s"
    by (rule conjunct1)
  from kept have "performStep ?c ?c = ?c\<lparr>isRunning := False\<rparr>"
    by blast
  then have "path (performStep ?c ?c) = path ?c"
    by simp
  with st ref show ?thesis
    by blast
qed


section \<open>The trajectory driver: runs\<close>

lemma clamped_snoc:
  "clamped p \<Longrightarrow> Fin (- 50) \<le> OptimizerStep.z s \<Longrightarrow> OptimizerStep.z s \<le> Fin 50
   \<Longrightarrow> clamped (p @ [s])"
  by (auto simp: clamped_def nth_append less_Suc_eq)

lemma displayed_snoc:
  "displayed f p \<Longrightarrow>
   OptimizerStep.z s
     = (if isFinite (f (OptimizerStep.x s) (OptimizerStep.y s))
        then Math_min (Math_max (f (OptimizerStep.x s) (OptimizerStep.y s)) (Fin (- 50))) (Fin 50)
        else Fin 0)
   \<Longrightarrow> displayed f (p @ [s])"
  by (auto simp: displayed_def nth_append less_Suc_eq)

lemma started_initializePath:
  "started (path (initializePath r c) ! 0) (initializePath r c)"
  "clamped (path (initializePath r c))"
  "displayed f (path (initializePath r c))"
  by (simp_all add: started_def clamped_def displayed_def initializePath_def Let_def)

text \<open>One step keeps the three invariants, whatever render its closure is from.\<close>

lemma performStep_invariants:
  assumes "started s0 c"
  shows "started s0 (performStep r c)"
    and "clamped (path c) \<Longrightarrow> clamped (path (performStep r c))"
    and "displayed (currentFunction r) (path c)
         \<Longrightarrow> displayed (currentFunction r) (path (performStep r c))"
proof -
  from assms obtain state where st: "optimizerStateRef c = Some state"
    by (auto simp: started_def)
  note cases = performStep_Some_cases [OF st, of r]
  from cases assms show "started s0 (performStep r c)"
    by (auto simp: started_def nth_append)
  from cases show "clamped (path (performStep r c))" if "clamped (path c)"
    using that by (elim disjE exE conjE) (simp_all add: clamped_snoc)
  from cases show "displayed (currentFunction r) (path (performStep r c))"
    if "displayed (currentFunction r) (path c)"
    using that by (elim disjE exE conjE) (simp_all add: displayed_snoc)
qed

lemma steps_started: "started s0 c \<Longrightarrow> started s0 (steps rs c)"
  by (induction rs arbitrary: c) (simp_all add: performStep_invariants(1))

lemma steps_clamped: "started s0 c \<Longrightarrow> clamped (path c) \<Longrightarrow> clamped (path (steps rs c))"
  by (induction rs arbitrary: c) (simp_all add: performStep_invariants)

lemma steps_displayed:
  "started s0 c \<Longrightarrow> displayed f (path c) \<Longrightarrow> \<forall>r \<in> set rs. currentFunction r = f
   \<Longrightarrow> displayed f (path (steps rs c))"
proof (induction rs arbitrary: c)
  case Nil
  then show ?case by simp
next
  case (Cons r rs)
  from Cons.prems have f: "currentFunction r = f"
    by simp
  with Cons.prems performStep_invariants(3) [of s0 c r]
  have "displayed f (path (performStep r c))"
    by simp
  with Cons show ?case
    by (simp add: performStep_invariants(1))
qed

text \<open>
  Claim C10. The display clamp to \<open>[-50, 50]\<close> applies to the records appended by stepping
  only. In a trajectory reached by \<open>initializePath\<close> and any number of \<open>performStep\<close>s, from
  the closures of whatever renders, the record at index 0 has the raw \<open>f(startX, startY)\<close>
  whenever that is finite (0 otherwise), and every record with index at least 1 has \<open>z\<close> in
  \<open>[-50, 50]\<close>; when the steps all see the loss function \<open>f\<close>, that \<open>z\<close> is \<open>f\<close> at the record's
  own point clamped to \<open>[-50, 50]\<close> if finite, and 0 if not. The initial \<open>z\<close> may lie outside
  the range: Himmelblau's function at its suggested start \<open>(-4, 4)\<close> gives \<open>z = 106\<close>.
\<close>

theorem display_clamp_scope:
  "(let p = path (steps rs (initializePath rinit cinit));
        z0 = currentFunction rinit (startX rinit) (startY rinit)
    in OptimizerStep.z (p ! 0) = (if isFinite z0 then z0 else Fin 0)
       \<and> (\<forall>i. 1 \<le> i \<and> i < length p
              \<longrightarrow> Fin (- 50) \<le> OptimizerStep.z (p ! i) \<and> OptimizerStep.z (p ! i) \<le> Fin 50)
       \<and> ((\<forall>r \<in> set rs. currentFunction r = f)
            \<longrightarrow> (\<forall>i. 1 \<le> i \<and> i < length p
                   \<longrightarrow> OptimizerStep.z (p ! i)
                         = (if isFinite (f (OptimizerStep.x (p ! i)) (OptimizerStep.y (p ! i)))
                            then Math_min
                                   (Math_max (f (OptimizerStep.x (p ! i)) (OptimizerStep.y (p ! i)))
                                      (Fin (- 50)))
                                   (Fin 50)
                            else Fin 0))))
   \<and> OptimizerStep.z (path (initializePath himmelblauComponent himmelblauComponent) ! 0)
       = Fin 106"
proof -
  let ?c = "initializePath rinit cinit"
  note init = started_initializePath [where r = rinit and c = cinit]
  have first: "path (steps rs ?c) ! 0 = path ?c ! 0"
    using steps_started [OF init(1), of rs] by (simp add: started_def)
  have z0: "OptimizerStep.z (path ?c ! 0)
          = (if isFinite (currentFunction rinit (startX rinit) (startY rinit))
             then currentFunction rinit (startX rinit) (startY rinit) else Fin 0)"
    by (simp add: initializePath_def Let_def)
  have range: "clamped (path (steps rs ?c))"
    by (rule steps_clamped [OF init(1) init(2)])
  have exact: "displayed f (path (steps rs ?c))" if "\<forall>r \<in> set rs. currentFunction r = f"
    using that by (rule steps_displayed [OF init(1) init(3)])
  have "himmelblau (Fin (- 4)) (Fin 4) = Fin 106"
    by (simp add: himmelblau_def is_integral_def)
  then have h: "OptimizerStep.z (path (initializePath himmelblauComponent himmelblauComponent) ! 0)
                  = Fin 106"
    by (simp add: initializePath_def himmelblauComponent_def initialComponent_def Let_def)
  from range have r: "\<forall>i. 1 \<le> i \<and> i < length (path (steps rs ?c))
       \<longrightarrow> Fin (- 50) \<le> OptimizerStep.z (path (steps rs ?c) ! i)
           \<and> OptimizerStep.z (path (steps rs ?c) ! i) \<le> Fin 50"
    by (simp add: clamped_def)
  from exact have e: "(\<forall>r \<in> set rs. currentFunction r = f)
     \<longrightarrow> (\<forall>i. 1 \<le> i \<and> i < length (path (steps rs ?c))
            \<longrightarrow> OptimizerStep.z (path (steps rs ?c) ! i)
                  = (if isFinite (f (OptimizerStep.x (path (steps rs ?c) ! i))
                                    (OptimizerStep.y (path (steps rs ?c) ! i)))
                     then Math_min
                            (Math_max (f (OptimizerStep.x (path (steps rs ?c) ! i))
                                         (OptimizerStep.y (path (steps rs ?c) ! i)))
                               (Fin (- 50)))
                            (Fin 50)
                     else Fin 0))"
    by (simp add: displayed_def)
  from first z0 r e h show ?thesis
    unfolding Let_def by simp
qed

text \<open>
  After the first Adam step of the default run the loss is about 62, above the range: the
  appended record shows 50, and the initial record the raw 12.5.
\<close>

theorem display_clamp_scope_witness:
  "(1::nat) < length (path (steps [initialized] (initializePath initialComponent initialComponent)))
   \<and> OptimizerStep.z
         (path (steps [initialized] (initializePath initialComponent initialComponent)) ! 1)
       = Fin 50
   \<and> OptimizerStep.z
         (path (steps [initialized] (initializePath initialComponent initialComponent)) ! 0)
       = Fin (25 / 2)"
proof -
  have run: "steps [initialized] (initializePath initialComponent initialComponent)
               = afterFirstStep"
    by (simp add: afterFirstStep_def initialized_def)
  have f: "\<forall>r \<in> set [initialized]. currentFunction r = quadraticBowl"
    by (simp add: initialized_simps)
  note scope = display_clamp_scope
    [where rs = "[initialized]" and rinit = initialComponent and cinit = initialComponent
       and f = quadraticBowl, unfolded Let_def run]
  from scope have "OptimizerStep.z (path afterFirstStep ! 0)
      = (if isFinite (currentFunction initialComponent
                        (startX initialComponent) (startY initialComponent))
         then currentFunction initialComponent (startX initialComponent) (startY initialComponent)
         else Fin 0)"
    by blast
  then have z0: "OptimizerStep.z (path afterFirstStep ! 0) = Fin (25 / 2)"
    by (simp add: initialComponent_def quadraticBowl_def)
  from scope f have "\<forall>i. 1 \<le> i \<and> i < length (path afterFirstStep)
      \<longrightarrow> OptimizerStep.z (path afterFirstStep ! i)
            = (if isFinite (quadraticBowl (OptimizerStep.x (path afterFirstStep ! i))
                                          (OptimizerStep.y (path afterFirstStep ! i)))
               then Math_min
                      (Math_max (quadraticBowl (OptimizerStep.x (path afterFirstStep ! i))
                                               (OptimizerStep.y (path afterFirstStep ! i)))
                         (Fin (- 50)))
                      (Fin 50)
               else Fin 0)"
    by blast
  then have "OptimizerStep.z (path afterFirstStep ! 1)
      = (if isFinite (quadraticBowl (OptimizerStep.x (path afterFirstStep ! 1))
                                    (OptimizerStep.y (path afterFirstStep ! 1)))
         then Math_min
                (Math_max (quadraticBowl (OptimizerStep.x (path afterFirstStep ! 1))
                                         (OptimizerStep.y (path afterFirstStep ! 1)))
                   (Fin (- 50)))
                (Fin 50)
         else Fin 0)"
    by (simp add: afterFirstStep_simps(2))
  then have z1: "OptimizerStep.z (path afterFirstStep ! 1) = Fin 50"
    by (simp only: afterFirstStep_simps(3,4) quadraticBowl_def) simp
  from z0 z1 show ?thesis
    unfolding run by (simp add: afterFirstStep_simps(2))
qed


section \<open>The index of an appended record\<close>

lemma indexed_snoc: "indexed p \<Longrightarrow> step s = length p \<Longrightarrow> indexed (p @ [s])"
  by (auto simp: indexed_def nth_append less_Suc_eq)

lemma indexed_initializePath: "indexed (path (initializePath r c))"
  by (simp add: initializePath_def indexed_def Let_def)

text \<open>
  A step from a render that saw the whole live trajectory keeps the records numbered by
  their indices.
\<close>

lemma indexed_performStep_fresh:
  assumes "indexed (path c)" and "length (path r) = length (path c)"
  shows "indexed (path (performStep r c))"
proof (cases "optimizerStateRef c")
  case None
  then show ?thesis
    by (simp add: performStep_def indexed_initializePath)
next
  case (Some state)
  from performStep_Some_cases [OF Some, of r] assms show ?thesis
    by (elim disjE exE conjE) (simp_all add: indexed_snoc)
qed

lemma sgdInitialized_simps:
  "optimizerStateRef sgdInitialized
     = Some \<lparr>OptimizerState.x = Fin 2.5, y = Fin 2.5,
             vx = None, vy = None, sx = None, sy = None, t = None\<rparr>"
  "currentFunction sgdInitialized = quadraticBowl"
  "optimizerType sgdInitialized = ''sgd''"
  "optimizerParams sgdInitialized
     = \<lparr>learningRate = Fin 0.1, momentum = None, rho = None,
        beta1 = None, beta2 = None, epsilon = None\<rparr>"
  "length (path sgdInitialized) = 1"
  "map step (path sgdInitialized) = [0]"
  by (simp_all add: sgdInitialized_def initializePath_def sgdComponent_def initialComponent_def
        Let_def)

lemma performStep_keeps_settings:
  "currentFunction (performStep r c) = currentFunction c"
  "optimizerType (performStep r c) = optimizerType c"
  "optimizerParams (performStep r c) = optimizerParams c"
  by (simp_all add: performStep_def initializePath_def Let_def split: option.splits)

lemma sgd_first_step:
  "optimizerStateRef (performStep sgdInitialized sgdInitialized)
     = Some \<lparr>OptimizerState.x = Fin 2, y = Fin 2,
             vx = None, vy = None, sx = None, sy = None, t = None\<rparr>"
  "map step (path (performStep sgdInitialized sgdInitialized)) = [0, 1]"
  "length (path (performStep sgdInitialized sgdInitialized)) = 2"
  by (simp_all add: performStep_def sgdInitialized_simps Let_def bowl_gradient
        optimizerStep_def sgdStep_def gradNorm_not_small)

text \<open>From \<open>(2, 2)\<close> the next plain-descent step is committed too.\<close>

lemma sgd_second_step_grows:
  "currentFunction r = quadraticBowl \<Longrightarrow> optimizerType r = ''sgd'' \<Longrightarrow>
   optimizerParams r = \<lparr>learningRate = Fin 0.1, momentum = None, rho = None,
                          beta1 = None, beta2 = None, epsilon = None\<rparr> \<Longrightarrow>
   length (path (performStep r (performStep sgdInitialized sgdInitialized))) = 3"
  by (simp add: performStep_def [of r] sgd_first_step Let_def bowl_gradient
        optimizerStep_def sgdStep_def gradNorm_not_small)

text \<open>
  Claim C5 says that the record at index \<open>i\<close> of the trajectory has \<open>step = i\<close>. The source
  appends to the live trajectory (\<^verbatim>\<open>setPath((prev) => [...prev, newStep])\<close>) but numbers the
  new record \<^verbatim>\<open>step: path.length\<close> with the length its closure's render saw: whenever
  \<open>performStep\<close> appends, the appended record carries the closure's length, not the live
  one. Run twice from the closure of the same render, it repeats the index.
\<close>

theorem performStep_step_from_closure:
  "optimizerStateRef c = Some state \<Longrightarrow> path (performStep r c) \<noteq> path c \<Longrightarrow>
   path (performStep r c) = path c @ [last (path (performStep r c))]
   \<and> step (last (path (performStep r c))) = length (path r)"
  using performStep_Some_cases [of c state r] by auto

text \<open>
  Plain descent on the quadratic bowl from \<open>(2.5, 2.5)\<close>: initialise, then step twice from
  the closure of the initialised render. The steps of the three records are 0, 1, 1; with
  the second step from the render after the first they are 0, 1, 2.
\<close>

theorem performStep_step_from_closure_witness:
  "map step (path (performStep sgdInitialized (performStep sgdInitialized sgdInitialized)))
     = [0, 1, 1]
   \<and> map step (path (performStep (performStep sgdInitialized sgdInitialized)
                        (performStep sgdInitialized sgdInitialized)))
     = [0, 1, 2]"
proof -
  let ?c1 = "performStep sgdInitialized sgdInitialized"
  let ?stale = "performStep sgdInitialized ?c1"
  let ?fresh = "performStep ?c1 ?c1"
  have "length (path ?stale) = 3"
    by (rule sgd_second_step_grows) (simp_all add: sgdInitialized_simps)
  then have "path ?stale \<noteq> path ?c1"
    using sgd_first_step(3) by auto
  note closure = performStep_step_from_closure [OF sgd_first_step(1) this]
  from closure have "step (last (path ?stale)) = length (path sgdInitialized)"
    by (rule conjunct2)
  then have index: "step (last (path ?stale)) = 1"
    by (simp only: sgdInitialized_simps(5))
  from closure have "path ?stale = path ?c1 @ [last (path ?stale)]"
    by (rule conjunct1)
  then have "map step (path ?stale) = map step (path ?c1 @ [last (path ?stale)])"
    by (rule arg_cong)
  also have "\<dots> = [0, 1, 1]"
    by (simp only: map_append list.map sgd_first_step(2) index append.simps)
  finally have stale: "map step (path ?stale) = [0, 1, 1]" .
  have "length (path ?fresh) = 3"
    by (rule sgd_second_step_grows)
       (simp_all add: performStep_keeps_settings sgdInitialized_simps)
  then have "path ?fresh \<noteq> path ?c1"
    using sgd_first_step(3) by auto
  note latest = performStep_step_from_closure [OF sgd_first_step(1) this]
  from latest have "step (last (path ?fresh)) = length (path ?c1)"
    by (rule conjunct2)
  then have index': "step (last (path ?fresh)) = 2"
    by (simp only: sgd_first_step(3))
  from latest have "path ?fresh = path ?c1 @ [last (path ?fresh)]"
    by (rule conjunct1)
  then have "map step (path ?fresh) = map step (path ?c1 @ [last (path ?fresh)])"
    by (rule arg_cong)
  also have "\<dots> = [0, 1, 2]"
    by (simp only: map_append list.map sgd_first_step(2) index' append.simps)
  finally have fresh: "map step (path ?fresh) = [0, 1, 2]" .
  from stale fresh show ?thesis
    by (rule conjI)
qed


section \<open>Switching the algorithm\<close>

lemma switchedToMomentum_simps:
  "optimizerStateRef switchedToMomentum
     = Some \<lparr>OptimizerState.x = Fin (5 / 2 - (1 / 2) / (5 + 1 / 10 ^ 8)),
             y = Fin (5 / 2 - 50 / (5 + 1 / 10 ^ 8)),
             vx = Some (Fin 0.5), vy = Some (Fin 0.5),
             sx = Some (Fin 0.025), sy = Some (Fin 0.025), t = Some (Fin 1)\<rparr>"
  "currentFunction switchedToMomentum = quadraticBowl"
  "optimizerType switchedToMomentum = ''momentum''"
  "optimizerParams switchedToMomentum
     = \<lparr>learningRate = Fin 0.1, momentum = Some (Fin 0.9), rho = None,
        beta1 = None, beta2 = None, epsilon = None\<rparr>"
  by (simp_all add: switchedToMomentum_def setOptimizerType_def setOptimizerParams_def
        afterFirstStep_simps)

text \<open>
  Claim C2 says that switching the algorithm type resets the live optimizer state, so that
  the new algorithm's first step reads nothing of the previous run. In the source the
  selector is wired to the bare setters: for every state they replace the type tag and the
  parameters only, and the ref and the trajectory stay as they are; no reset follows, unlike
  on a change of the start point, of the preset, or on loading a configuration.
\<close>

theorem algorithm_switch_no_reset:
  "optimizerStateRef (setOptimizerType v c) = optimizerStateRef c
   \<and> optimizerStateRef (setOptimizerParams p c) = optimizerStateRef c
   \<and> (onValueChange v c = Some c'
        \<longrightarrow> optimizerStateRef c' = optimizerStateRef c \<and> path c' = path c)"
  by (auto simp: onValueChange_def setOptimizerType_def setOptimizerParams_def
        split: option.splits)

text \<open>
  The default run after its first Adam step. Switching to plain descent and back leaves
  \<open>t = 1\<close> in the live state, so the next Adam step computes \<open>t = 2\<close>. Choosing momentum in
  the selector leaves Adam's first moment \<open>vx = 0.5\<close> in the live state, and the first
  momentum step reads it as its velocity: the new velocity is \<open>0.9 \<cdot> 0.5 + 0.1 \<cdot> gradX\<close>,
  where a reset state gives \<open>0.1 \<cdot> gradX\<close>.
\<close>

theorem algorithm_switch_no_reset_witness:
  "map_option t (optimizerStateRef
       (setOptimizerType ''adam'' (setOptimizerType ''sgd'' afterFirstStep)))
     = Some (Some (Fin 1))
   \<and> map_option (\<lambda>state. t (adamStep state
                     (computeGradient quadraticBowl
                        (OptimizerState.x state) (OptimizerState.y state) default_h)
                     \<lparr>learningRate = Fin 0.1, momentum = None, rho = None,
                      beta1 = Some (Fin 0.9), beta2 = Some (Fin 0.999),
                      epsilon = Some (Fin (1 / 10 ^ 8))\<rparr>))
       (optimizerStateRef (setOptimizerType ''adam'' (setOptimizerType ''sgd'' afterFirstStep)))
     = Some (Some (Fin 2))
   \<and> onValueChange ''momentum'' afterFirstStep = Some switchedToMomentum
   \<and> optimizerStateRef switchedToMomentum = optimizerStateRef afterFirstStep
   \<and> map_option vx (optimizerStateRef switchedToMomentum) = Some (Some (Fin (1 / 2)))
   \<and> map_option vx (optimizerStateRef (performStep switchedToMomentum switchedToMomentum))
     = Some (Some (Fin (9 / 10 * (1 / 2) + 1 / 10 * (2 * (5 / 2 - (1 / 2) / (5 + 1 / 10 ^ 8))))))"
proof -
  have sel: "onValueChange ''momentum'' afterFirstStep = Some switchedToMomentum"
    by (simp add: onValueChange_def defaultParams_def switchedToMomentum_def)
  note kept = algorithm_switch_no_reset
    [where v = "''momentum''" and c = afterFirstStep and c' = switchedToMomentum
       and p = "optimizerParams afterFirstStep"]
  from kept sel have same: "optimizerStateRef switchedToMomentum = optimizerStateRef afterFirstStep"
    by blast
  have returned: "optimizerStateRef (setOptimizerType ''adam'' (setOptimizerType ''sgd'' afterFirstStep))
                = optimizerStateRef afterFirstStep"
    by (simp add: setOptimizerType_def)
  have t1: "map_option t (optimizerStateRef afterFirstStep) = Some (Some (Fin 1))"
    by (simp add: afterFirstStep_simps)
  have t2: "map_option (\<lambda>state. t (adamStep state
                     (computeGradient quadraticBowl
                        (OptimizerState.x state) (OptimizerState.y state) default_h)
                     \<lparr>learningRate = Fin 0.1, momentum = None, rho = None,
                      beta1 = Some (Fin 0.9), beta2 = Some (Fin 0.999),
                      epsilon = Some (Fin (1 / 10 ^ 8))\<rparr>))
              (optimizerStateRef afterFirstStep) = Some (Some (Fin 2))"
    by (simp add: afterFirstStep_simps adamStep_def Let_def)
  have v1: "map_option vx (optimizerStateRef afterFirstStep) = Some (Some (Fin (1 / 2)))"
    by (simp add: afterFirstStep_simps)
  have v2: "map_option vx (optimizerStateRef (performStep switchedToMomentum switchedToMomentum))
     = Some (Some (Fin (9 / 10 * (1 / 2) + 1 / 10 * (2 * (5 / 2 - (1 / 2) / (5 + 1 / 10 ^ 8))))))"
    by (simp add: performStep_def switchedToMomentum_simps Let_def bowl_gradient
          optimizerStep_def momentumStep_def gradNorm_not_small)
  from sel same t1 t2 v1 v2 show ?thesis
    unfolding returned same by blast
qed

end
